theory Spec2Isabelle
  imports Complex_Main
begin

section \<open>Cell values and Python strings\<close>

text \<open>
  A cell of the table read by \<^verbatim>\<open>pd.read_csv\<close> is a missing marker, a string or a
  number. \<open>PNone\<close> and \<open>PNaN\<close> are the two missing markers \<^verbatim>\<open>pd.isna\<close>
  recognises among scalars. A float other than NaN is carried as the text that
  \<^verbatim>\<open>str()\<close> prints for it: the code only ever looks at a float through
  \<^verbatim>\<open>str(label)\<close>, and every theorem below holds whatever that text is.

  A \<open>char\<close> stands for a code point below 256; \<^verbatim>\<open>str.lower\<close> and
  \<^verbatim>\<open>str.strip\<close> are modelled exactly on that range.
\<close>

datatype pyval =
    PNone
  | PNaN
  | PStr string
  | PInt int
  | PBool bool
  | PFloat string

fun pd_isna :: "pyval \<Rightarrow> bool" where
  "pd_isna PNone = True"
| "pd_isna PNaN = True"
| "pd_isna _ = False"

definition digit_char :: "nat \<Rightarrow> char" where
  "digit_char d = char_of (48 + d)"

fun str_nat :: "nat \<Rightarrow> string" where
  "str_nat n = (if n < 10 then [digit_char n] else str_nat (n div 10) @ [digit_char (n mod 10)])"

declare str_nat.simps [simp del]

definition str_int :: "int \<Rightarrow> string" where
  "str_int i = (if i < 0 then CHR ''-'' # str_nat (nat (- i)) else str_nat (nat i))"

text \<open>\<^verbatim>\<open>str(label)\<close> on a cell that passed the missing test of line 8.\<close>

fun py_str :: "pyval \<Rightarrow> string" where
  "py_str PNone = ''None''"
| "py_str PNaN = ''nan''"
| "py_str (PStr s) = s"
| "py_str (PInt i) = str_int i"
| "py_str (PBool b) = (if b then ''True'' else ''False'')"
| "py_str (PFloat txt) = txt"

definition lower_char :: "char \<Rightarrow> char" where
  "lower_char c =
     (let n = (of_char c :: nat)
      in if (65 \<le> n \<and> n \<le> 90) \<or> (192 \<le> n \<and> n \<le> 222 \<and> n \<noteq> 215)
         then char_of (n + 32) else c)"

definition lower :: "string \<Rightarrow> string" where
  "lower s = map lower_char s"

definition is_space :: "char \<Rightarrow> bool" where
  "is_space c =
     (let n = (of_char c :: nat)
      in (9 \<le> n \<and> n \<le> 13) \<or> (28 \<le> n \<and> n \<le> 32) \<or> n = 133 \<or> n = 160)"

definition strip :: "string \<Rightarrow> string" where
  "strip s = rev (dropWhile is_space (rev (dropWhile is_space s)))"

text \<open>\<^verbatim>\<open>sub in s\<close> on strings: \<open>sub\<close> occurs in \<open>s\<close> as a contiguous block.\<close>

fun starts_with :: "string \<Rightarrow> string \<Rightarrow> bool" where
  "starts_with s [] = True"
| "starts_with [] (c # cs) = False"
| "starts_with (d # ds) (c # cs) = (d = c \<and> starts_with ds cs)"

fun contains :: "string \<Rightarrow> string \<Rightarrow> bool" where
  "contains [] sub = (sub = [])"
| "contains (d # ds) sub = (starts_with (d # ds) sub \<or> contains ds sub)"

section \<open>The normalizer\<close>

definition unsafe_literals :: "string list" where
  "unsafe_literals = [''0'', ''1 (unsafe)'', ''0 (unsafe)'', ''unsafe (0)'', ''unsafe (1)'']"

text \<open>
  \<^verbatim>\<open>normalize_label\<close>, lines 5 to 21. A missing label is returned as it came
  (line 9); every other result is a string: \<^verbatim>\<open>'safe'\<close>, \<^verbatim>\<open>'unsafe'\<close>, or
  the lower-cased, trimmed text itself.
\<close>

definition normalize_label :: "pyval \<Rightarrow> pyval" where
  "normalize_label label =
     (if pd_isna label \<or> label = PStr '''' then label
      else let label_str = strip (lower (py_str label))
           in if contains label_str ''safe'' \<and> \<not> contains label_str ''unsafe'' then PStr ''safe''
              else if contains label_str ''unsafe'' \<or> label_str \<in> set unsafe_literals then PStr ''unsafe''
              else PStr label_str)"

section \<open>Data frames\<close>

text \<open>
  A data frame is its ordered column names, the dtype pandas inferred for each column, and
  its rows; a row gives the cell of every column (what it gives for a name that is not a
  column is never read). The dtype matters in one place: the \<^verbatim>\<open>.str\<close>
  accessor of line 48, which raises \<^verbatim>\<open>AttributeError\<close> on a column that does
  not hold text. \<open>ObjectDtype\<close> is the dtype of a column read as text or as a mix of
  values.
\<close>

datatype dtype = ObjectDtype | Int64Dtype | Float64Dtype | BoolDtype

type_synonym row = "string \<Rightarrow> pyval"

record dataframe =
  columns :: "string list"
  dtype_of :: "string \<Rightarrow> dtype"
  rows :: "row list"

text \<open>
  The exceptions the body of \<^verbatim>\<open>evaluate_model\<close> can raise. \<open>ReadError\<close> stands
  for whatever \<^verbatim>\<open>pd.read_csv\<close> raises on a source it cannot turn into a
  table; \<open>KeyError\<close> carries the labels that are not columns.
\<close>

datatype exn = ReadError | KeyError "string list" | AttributeError | TypeError | ZeroDivisionError

definition len :: "dataframe \<Rightarrow> int" where
  "len df = int (length (rows df))"

definition count :: "('a \<Rightarrow> bool) \<Rightarrow> 'a list \<Rightarrow> int" where
  "count P xs = int (length (filter P xs))"

text \<open>\<^verbatim>\<open>df[name]\<close>, and the same with a list of names: the selection of line 39.\<close>

definition getitem :: "dataframe \<Rightarrow> string \<Rightarrow> exn + pyval list" where
  "getitem df name =
     (if name \<in> set (columns df) then Inr (map (\<lambda>r. r name) (rows df))
      else Inl (KeyError [name]))"

definition getitems :: "dataframe \<Rightarrow> string list \<Rightarrow> exn + pyval list list" where
  "getitems df names =
     (case filter (\<lambda>n. n \<notin> set (columns df)) names of
        [] \<Rightarrow> Inr (map (\<lambda>n. map (\<lambda>r. r n) (rows df)) names)
      | missing \<Rightarrow> Inl (KeyError missing))"

text \<open>Lines 39 and 40: the missing and the empty cells of the two columns.\<close>

definition count_empty_cells :: "dataframe \<Rightarrow> string \<Rightarrow> string \<Rightarrow> exn + int" where
  "count_empty_cells df prediction_column truth_column =
     (case getitems df [prediction_column, truth_column] of
        Inl e \<Rightarrow> Inl e
      | Inr both \<Rightarrow>
          (case getitem df prediction_column of
             Inl e \<Rightarrow> Inl e
           | Inr preds \<Rightarrow>
               (case getitem df truth_column of
                  Inl e \<Rightarrow> Inl e
                | Inr truths \<Rightarrow>
                    Inr (sum_list (map (count pd_isna) both)
                         + (count (\<lambda>v. v = PStr '''') preds + count (\<lambda>v. v = PStr '''') truths)))))"

text \<open>
  The \<^verbatim>\<open>.str\<close> accessor checks the column before anything else: pandas infers
  the kind of the values that are not missing, and raises \<^verbatim>\<open>AttributeError\<close>
  unless it infers strings, a mix of kinds, or no value at all. So the accessor is refused
  on a column of a numeric or boolean dtype, and on an object column whose present values
  are all numbers (integers too large for int64, say) or all booleans (booleans with
  missing cells are read as objects).
\<close>

fun is_number :: "pyval \<Rightarrow> bool" where
  "is_number (PInt _) = True"
| "is_number (PFloat _) = True"
| "is_number _ = False"

fun is_boolean :: "pyval \<Rightarrow> bool" where
  "is_boolean (PBool _) = True"
| "is_boolean _ = False"

definition str_accessor_ok :: "dataframe \<Rightarrow> string \<Rightarrow> bool" where
  "str_accessor_ok df col =
     (let present = filter (\<lambda>v. \<not> pd_isna v) (map (\<lambda>r. r col) (rows df))
      in if dtype_of df col = ObjectDtype
         then (if present = [] then True
               else \<not> list_all is_number present \<and> \<not> list_all is_boolean present)
         else False)"

text \<open>
  \<^verbatim>\<open>df[col].str.lower()\<close>, cell by cell: a string is lower-cased, anything else
  becomes NaN.
\<close>

fun str_lower_cell :: "pyval \<Rightarrow> pyval" where
  "str_lower_cell (PStr s) = PStr (lower s)"
| "str_lower_cell _ = PNaN"

definition matching_rows :: "dataframe \<Rightarrow> string \<Rightarrow> string \<Rightarrow> row list" where
  "matching_rows df category_col category_name =
     filter (\<lambda>r. str_lower_cell (r category_col) = PStr (lower category_name)) (rows df)"

definition df_empty :: "dataframe \<Rightarrow> bool" where
  "df_empty df = (columns df = [] \<or> rows df = [])"

text \<open>The two error results the body returns itself, and the one made of a caught exception.\<close>

datatype error = CategoryColumnNotFound | NoDataForCategory string | Caught exn

text \<open>
  Lines 42 to 51. The result is an exception (outer \<open>Inl\<close>), an error result that the
  body returns at once (inner \<open>Inl\<close>), or the frame to go on with.
\<close>

definition category_columns :: "dataframe \<Rightarrow> string list" where
  "category_columns df = filter (\<lambda>col. contains (lower col) ''category'') (columns df)"

definition filter_category :: "dataframe \<Rightarrow> string \<Rightarrow> exn + (error + dataframe)" where
  "filter_category df category_name =
     (if lower category_name \<noteq> ''total'' then
        (case category_columns df of
           [] \<Rightarrow> Inr (Inl CategoryColumnNotFound)
         | category_col # _ \<Rightarrow>
             (if \<not> str_accessor_ok df category_col then Inl AttributeError
              else let df' = df\<lparr>rows := matching_rows df category_col category_name\<rparr>
                   in if df_empty df' then Inr (Inl (NoDataForCategory category_name))
                      else Inr (Inr df')))
      else Inr (Inr df))"

text \<open>\<^verbatim>\<open>df[new] = df[col].apply(f)\<close>: an existing column of that name is overwritten.\<close>

definition assign_apply :: "dataframe \<Rightarrow> string \<Rightarrow> string \<Rightarrow> (pyval \<Rightarrow> pyval) \<Rightarrow> exn + dataframe" where
  "assign_apply df new col f =
     (if col \<in> set (columns df) then
        Inr (df\<lparr>columns := (if new \<in> set (columns df) then columns df else columns df @ [new]),
                dtype_of := (dtype_of df)(new := ObjectDtype),
                rows := map (\<lambda>r. r(new := f (r col))) (rows df)\<rparr>)
      else Inl (KeyError [col]))"

text \<open>Lines 53 and 54.\<close>

definition normalize_columns :: "dataframe \<Rightarrow> string \<Rightarrow> string \<Rightarrow> exn + dataframe" where
  "normalize_columns df prediction_column truth_column =
     (case assign_apply df ''normalized_pred'' prediction_column normalize_label of
        Inl e \<Rightarrow> Inl e
      | Inr df1 \<Rightarrow> assign_apply df1 ''normalized_truth'' truth_column normalize_label)"

text \<open>
  Lines 35 to 54: everything up to the normalized frame, with the column names of line 37
  and the count of lines 39 and 40.
\<close>

definition load_and_filter ::
  "exn + dataframe \<Rightarrow> string \<Rightarrow> string \<Rightarrow> string \<Rightarrow> exn + (error + (string list \<times> int \<times> dataframe))" where
  "load_and_filter read_csv category_name prediction_column truth_column =
     (case read_csv of
        Inl e \<Rightarrow> Inl e
      | Inr df \<Rightarrow>
          (case count_empty_cells df prediction_column truth_column of
             Inl e \<Rightarrow> Inl e
           | Inr n_empty \<Rightarrow>
               (case filter_category df category_name of
                  Inl e \<Rightarrow> Inl e
                | Inr (Inl err) \<Rightarrow> Inr (Inl err)
                | Inr (Inr df1) \<Rightarrow>
                    (case normalize_columns df1 prediction_column truth_column of
                       Inl e \<Rightarrow> Inl e
                     | Inr df2 \<Rightarrow> Inr (Inr (columns df, n_empty, df2))))))"

section \<open>The normalizer, operation by operation\<close>

text \<open>
  \<^verbatim>\<open>normalize_label\<close> once more, lines 8 to 21, now with the exceptions of its
  operations written out. Python looks a method up on the value it is called on:
  \<^verbatim>\<open>.lower()\<close> and \<^verbatim>\<open>.strip()\<close> exist on strings only, and on a
  number, a boolean or \<^verbatim>\<open>None\<close> the call raises \<^verbatim>\<open>AttributeError\<close>;
  \<^verbatim>\<open>sub in x\<close> raises \<^verbatim>\<open>TypeError\<close> when \<open>x\<close> is not a string.
  \<^verbatim>\<open>pd.isna\<close> on a scalar, \<^verbatim>\<open>==\<close>, \<^verbatim>\<open>str()\<close> and the
  membership in the list of literals never raise. \<^verbatim>\<open>and\<close> and \<^verbatim>\<open>or\<close>
  evaluate their second operand only when the first does not decide.
\<close>

fun method_lower :: "pyval \<Rightarrow> exn + pyval" where
  "method_lower (PStr s) = Inr (PStr (lower s))"
| "method_lower _ = Inl AttributeError"

fun method_strip :: "pyval \<Rightarrow> exn + pyval" where
  "method_strip (PStr s) = Inr (PStr (strip s))"
| "method_strip _ = Inl AttributeError"

fun py_in :: "string \<Rightarrow> pyval \<Rightarrow> exn + bool" where
  "py_in sub (PStr s) = Inr (contains s sub)"
| "py_in sub _ = Inl TypeError"

text \<open>Line 14: \<^verbatim>\<open>'safe' in label_str and 'unsafe' not in label_str\<close>.\<close>

definition safe_test :: "pyval \<Rightarrow> exn + bool" where
  "safe_test label_str =
     (case py_in ''safe'' label_str of
        Inl e \<Rightarrow> Inl e
      | Inr has_safe \<Rightarrow>
          (if has_safe then
             (case py_in ''unsafe'' label_str of
                Inl e \<Rightarrow> Inl e
              | Inr has_unsafe \<Rightarrow> Inr (\<not> has_unsafe))
           else Inr False))"

text \<open>Line 18: \<^verbatim>\<open>'unsafe' in label_str or label_str in [...]\<close>.\<close>

definition unsafe_test :: "pyval \<Rightarrow> exn + bool" where
  "unsafe_test label_str =
     (case py_in ''unsafe'' label_str of
        Inl e \<Rightarrow> Inl e
      | Inr has_unsafe \<Rightarrow>
          (if has_unsafe then Inr True
           else Inr (label_str \<in> set (map PStr unsafe_literals))))"

definition normalize_label_checked :: "pyval \<Rightarrow> exn + pyval" where
  "normalize_label_checked label =
     (if pd_isna label \<or> label = PStr '''' then Inr label
      else
        (case method_lower (PStr (py_str label)) of
           Inl e \<Rightarrow> Inl e
         | Inr lowered \<Rightarrow>
        (case method_strip lowered of
           Inl e \<Rightarrow> Inl e
         | Inr label_str \<Rightarrow>
        (case safe_test label_str of
           Inl e \<Rightarrow> Inl e
         | Inr is_safe \<Rightarrow>
             (if is_safe then Inr (PStr ''safe'')
              else
                (case unsafe_test label_str of
                   Inl e \<Rightarrow> Inl e
                 | Inr is_unsafe \<Rightarrow>
                     (if is_unsafe then Inr (PStr ''unsafe'') else Inr label_str)))))))"

section \<open>Scoring\<close>

text \<open>
  The metrics are floats. Their arithmetic is a parameter of the model: the quotient of two
  counts, \<^verbatim>\<open>round(x, 3)\<close>, the test \<^verbatim>\<open>x == 0\<close>, and the operations of the
  F1 formula. Every theorem about the evaluator holds for any such operations.
\<close>

record 'f float_ops =
  truediv :: "int \<Rightarrow> int \<Rightarrow> 'f"
  round3 :: "'f \<Rightarrow> 'f"
  is_zero :: "'f \<Rightarrow> bool"
  from_int :: "int \<Rightarrow> 'f"
  fmul :: "'f \<Rightarrow> 'f \<Rightarrow> 'f"
  fadd :: "'f \<Rightarrow> 'f \<Rightarrow> 'f"
  fdiv :: "'f \<Rightarrow> 'f \<Rightarrow> 'f"

text \<open>A metric is a number or the string \<^verbatim>\<open>"N/A"\<close>.\<close>

datatype 'f metric = NA | Num 'f

text \<open>
  Python's \<^verbatim>\<open>/\<close>, which raises on a zero divisor. (The scalars of numpy give
  inf or nan instead; the model takes the stricter reading, so that a division by zero,
  were one performed, would show as \<open>ZeroDivisionError\<close>.)
\<close>

definition py_truediv :: "'f float_ops \<Rightarrow> int \<Rightarrow> int \<Rightarrow> exn + 'f" where
  "py_truediv ops a b = (if b = 0 then Inl ZeroDivisionError else Inr (truediv ops a b))"

definition py_fdiv :: "'f float_ops \<Rightarrow> 'f \<Rightarrow> 'f \<Rightarrow> exn + 'f" where
  "py_fdiv ops a b = (if is_zero ops b then Inl ZeroDivisionError else Inr (fdiv ops a b))"

text \<open>\<^verbatim>\<open>round(num / den, 3) if den > 0 else "N/A"\<close>, lines 72, 75, 78 and 81.\<close>

definition guarded_ratio :: "'f float_ops \<Rightarrow> int \<Rightarrow> int \<Rightarrow> exn + 'f metric" where
  "guarded_ratio ops num den =
     (if den > 0 then
        (case py_truediv ops num den of Inl e \<Rightarrow> Inl e | Inr q \<Rightarrow> Inr (Num (round3 ops q)))
      else Inr NA)"

text \<open>Lines 84 to 87.\<close>

fun f1_of :: "'f float_ops \<Rightarrow> 'f metric \<Rightarrow> 'f metric \<Rightarrow> exn + 'f metric" where
  "f1_of ops (Num ppv) (Num recall) =
     (if is_zero ops ppv \<or> is_zero ops recall then Inr NA
      else (case py_fdiv ops (fmul ops (from_int ops 2) (fmul ops ppv recall)) (fadd ops ppv recall) of
              Inl e \<Rightarrow> Inl e
            | Inr q \<Rightarrow> Inr (Num (round3 ops q))))"
| "f1_of ops _ _ = Inr NA"

text \<open>
  The results dictionary of lines 96 to 108; the confusion matrix is kept as its four
  counts.
\<close>

record 'f results =
  category :: string
  result_columns :: "string list"
  total_samples :: int
  empty_cells :: int
  rows_removed :: int
  accuracy :: "'f metric"
  true_positives :: int
  false_negatives :: int
  false_positives :: int
  true_negatives :: int
  precision_ppv :: "'f metric"
  npv :: "'f metric"
  recall :: "'f metric"
  f1_score :: "'f metric"

datatype 'f outcome = Error error | Results "'f results"

text \<open>Lines 57 and 58: the rows whose two normalized labels are neither missing nor empty.\<close>

definition dropna :: "dataframe \<Rightarrow> string list \<Rightarrow> dataframe" where
  "dropna df names = df\<lparr>rows := filter (\<lambda>r. list_all (\<lambda>c. \<not> pd_isna (r c)) names) (rows df)\<rparr>"

definition drop_incomplete :: "dataframe \<Rightarrow> dataframe" where
  "drop_incomplete df =
     (let df1 = dropna df [''normalized_pred'', ''normalized_truth'']
      in df1\<lparr>rows := filter (\<lambda>r. r ''normalized_pred'' \<noteq> PStr '''' \<and> r ''normalized_truth'' \<noteq> PStr '''')
                          (rows df1)\<rparr>)"

text \<open>
  The vocabulary of the specification, read on the values of the code: a label is missing
  when it is one of the missing markers or the empty string (the test of line 8, and of
  lines 57 and 58); it is canonical when it is \<^verbatim>\<open>'safe'\<close> or
  \<^verbatim>\<open>'unsafe'\<close>; any other string is an Other label. A row is an Other row
  when its two normalized labels are not both canonical.
\<close>

definition missing_label :: "pyval \<Rightarrow> bool" where
  "missing_label v = (pd_isna v \<or> v = PStr '''')"

definition canonical_label :: "pyval \<Rightarrow> bool" where
  "canonical_label v = (v = PStr ''safe'' \<or> v = PStr ''unsafe'')"

definition other_row :: "row \<Rightarrow> bool" where
  "other_row r = (\<not> (canonical_label (r ''normalized_pred'') \<and> canonical_label (r ''normalized_truth'')))"

definition complete_row :: "row \<Rightarrow> bool" where
  "complete_row r = (\<not> missing_label (r ''normalized_pred'') \<and> \<not> missing_label (r ''normalized_truth''))"

text \<open>Lines 63 to 66: the rows with the given normalized prediction and truth.\<close>

definition tally :: "dataframe \<Rightarrow> string \<Rightarrow> string \<Rightarrow> int" where
  "tally df pred truth =
     count (\<lambda>r. r ''normalized_pred'' = PStr pred \<and> r ''normalized_truth'' = PStr truth) (rows df)"

text \<open>Lines 56 to 108, on the normalized frame.\<close>

definition score :: "'f float_ops \<Rightarrow> string \<Rightarrow> string list \<Rightarrow> int \<Rightarrow> dataframe \<Rightarrow> exn + 'f results" where
  "score ops category_name cols n_empty df =
     (let original_count = len df;
          kept = drop_incomplete df;
          filtered_count = len kept;
          removed = original_count - filtered_count;
          tp = tally kept ''unsafe'' ''unsafe'';
          tn = tally kept ''safe'' ''safe'';
          fp = tally kept ''unsafe'' ''safe'';
          fn = tally kept ''safe'' ''unsafe'';
          total = tp + tn + fp + fn
      in case guarded_ratio ops (tp + tn) total of
           Inl e \<Rightarrow> Inl e
         | Inr acc \<Rightarrow>
        (case guarded_ratio ops tp (tp + fp) of
           Inl e \<Rightarrow> Inl e
         | Inr ppv \<Rightarrow>
        (case guarded_ratio ops tn (tn + fn) of
           Inl e \<Rightarrow> Inl e
         | Inr npv_value \<Rightarrow>
        (case guarded_ratio ops tp (tp + fn) of
           Inl e \<Rightarrow> Inl e
         | Inr rec \<Rightarrow>
        (case f1_of ops ppv rec of
           Inl e \<Rightarrow> Inl e
         | Inr f1 \<Rightarrow>
             Inr \<lparr>category = category_name, result_columns = cols, total_samples = total,
                  empty_cells = n_empty, rows_removed = removed, accuracy = acc,
                  true_positives = tp, false_negatives = fn, false_positives = fp,
                  true_negatives = tn, precision_ppv = ppv, npv = npv_value, recall = rec,
                  f1_score = f1\<rparr>)))))"

section \<open>The evaluator\<close>

text \<open>
  The body of the \<^verbatim>\<open>try\<close> block, lines 35 to 110: it raises (\<open>Inl\<close>) or returns
  a dictionary (\<open>Inr\<close>). Its first argument is what \<^verbatim>\<open>pd.read_csv(csv_file)\<close>
  did: raise, or give a frame.
\<close>

definition evaluate_body ::
  "'f float_ops \<Rightarrow> exn + dataframe \<Rightarrow> string \<Rightarrow> string \<Rightarrow> string \<Rightarrow> exn + 'f outcome" where
  "evaluate_body ops read_csv category_name prediction_column truth_column =
     (case load_and_filter read_csv category_name prediction_column truth_column of
        Inl e \<Rightarrow> Inl e
      | Inr (Inl err) \<Rightarrow> Inr (Error err)
      | Inr (Inr (cols, n_empty, df)) \<Rightarrow>
          (case score ops category_name cols n_empty df of
             Inl e \<Rightarrow> Inl e
           | Inr r \<Rightarrow> Inr (Results r)))"

text \<open>
  \<^verbatim>\<open>evaluate_model\<close> with its handler, lines 112 and 113: an exception of the body
  becomes an error dictionary.
\<close>

definition evaluate_model ::
  "'f float_ops \<Rightarrow> exn + dataframe \<Rightarrow> string \<Rightarrow> string \<Rightarrow> string \<Rightarrow> exn + 'f outcome" where
  "evaluate_model ops read_csv category_name prediction_column truth_column =
     (case evaluate_body ops read_csv category_name prediction_column truth_column of
        Inl e \<Rightarrow> Inr (Error (Caught e))
      | Inr out \<Rightarrow> Inr out)"

section \<open>An exact instance to run the model on\<close>

text \<open>
  Rational arithmetic, with rounding to three decimals, ties to the even neighbour. It
  serves to evaluate the model on concrete tables; no theorem about the code depends on it.
\<close>

definition round_half_even :: "rat \<Rightarrow> int" where
  "round_half_even y =
     (let f = \<lfloor>y\<rfloor>; d = y - of_int f
      in if d < 1 / 2 then f else if 1 / 2 < d then f + 1 else if even f then f else f + 1)"

definition exact_ops :: "rat float_ops" where
  "exact_ops =
     \<lparr>truediv = (\<lambda>a b. of_int a / of_int b),
      round3 = (\<lambda>x. of_int (round_half_even (x * 1000)) / 1000),
      is_zero = (\<lambda>x. x = 0),
      from_int = of_int,
      fmul = (\<lambda>x y. x * y),
      fadd = (\<lambda>x y. x + y),
      fdiv = (\<lambda>x y. x / y)\<rparr>"

definition cell_row :: "(string \<times> pyval) list \<Rightarrow> row" where
  "cell_row kvs = (\<lambda>name. case map_of kvs name of Some v \<Rightarrow> v | None \<Rightarrow> PNaN)"

text \<open>
  A table of six rows with a category column: the four combinations of safe and unsafe,
  one row with an unrecognised prediction, one row with a missing truth.
\<close>

definition demo_frame :: dataframe where
  "demo_frame =
     \<lparr>columns = [''Category'', ''pred'', ''truth''],
      dtype_of = (\<lambda>_. ObjectDtype),
      rows = [cell_row [(''Category'', PStr ''A''), (''pred'', PStr ''Unsafe''), (''truth'', PStr ''unsafe'')],
              cell_row [(''Category'', PStr ''A''), (''pred'', PStr ''safe''), (''truth'', PStr '' SAFE '')],
              cell_row [(''Category'', PStr ''a''), (''pred'', PStr ''unsafe (1)''), (''truth'', PStr ''safe'')],
              cell_row [(''Category'', PStr ''B''), (''pred'', PStr ''Safe''), (''truth'', PStr ''0'')],
              cell_row [(''Category'', PStr ''B''), (''pred'', PStr ''benign''), (''truth'', PStr ''safe'')],
              cell_row [(''Category'', PStr ''B''), (''pred'', PStr ''safe''), (''truth'', PNaN)]]\<rparr>"

text \<open>The results for that table when no category is selected.\<close>

definition demo_total :: "rat results" where
  "demo_total =
     \<lparr>category = ''total'', result_columns = [''Category'', ''pred'', ''truth''],
      total_samples = 4, empty_cells = 1, rows_removed = 1, accuracy = Num (1 / 2),
      true_positives = 1, false_negatives = 1, false_positives = 1, true_negatives = 1,
      precision_ppv = Num (1 / 2), npv = Num (1 / 2), recall = Num (1 / 2),
      f1_score = Num (1 / 2)\<rparr>"

text \<open>A table whose category column holds integers, as read from a file of numbers.\<close>

definition numeric_category_frame :: dataframe where
  "numeric_category_frame =
     \<lparr>columns = [''category'', ''pred'', ''truth''],
      dtype_of = (\<lambda>name. if name = ''category'' then Int64Dtype else ObjectDtype),
      rows = [cell_row [(''category'', PInt 1), (''pred'', PStr ''safe''), (''truth'', PStr ''safe'')],
              cell_row [(''category'', PInt 2), (''pred'', PStr ''unsafe''), (''truth'', PStr ''safe'')]]\<rparr>"

text \<open>
  A table whose category column holds booleans and a missing cell, which pandas reads as
  an object column.
\<close>

definition boolean_category_frame :: dataframe where
  "boolean_category_frame =
     \<lparr>columns = [''category'', ''pred'', ''truth''],
      dtype_of = (\<lambda>_. ObjectDtype),
      rows = [cell_row [(''category'', PBool True), (''pred'', PStr ''safe''), (''truth'', PStr ''safe'')],
              cell_row [(''category'', PNaN), (''pred'', PStr ''unsafe''), (''truth'', PStr ''safe'')]]\<rparr>"

section \<open>Properties of the normalizer\<close>

subsection \<open>Lower-casing and trimming\<close>

lemma lower_char_idem: "lower_char (lower_char c) = lower_char c"
  unfolding lower_char_def Let_def by auto

lemma dropWhile_hd_id: "xs \<noteq> [] \<Longrightarrow> \<not> P (hd xs) \<Longrightarrow> dropWhile P xs = xs"
  by (cases xs) auto

lemma rstrip_prefix: "\<exists>v. t = rev (dropWhile P (rev t)) @ v"
proof -
  have "t = rev (takeWhile P (rev t) @ dropWhile P (rev t))" by simp
  then have "t = rev (dropWhile P (rev t)) @ rev (takeWhile P (rev t))"
    by (simp only: rev_append)
  then show ?thesis by blast
qed

lemma dropWhile_strip: "dropWhile is_space (strip s) = strip s"
proof (cases "strip s = []")
  case True
  then show ?thesis by simp
next
  case False
  define t where "t = dropWhile is_space s"
  obtain v where v: "t = strip s @ v"
    using rstrip_prefix[of t is_space] by (auto simp: strip_def t_def)
  have "t \<noteq> []" using v False by auto
  then have "\<not> is_space (hd t)" unfolding t_def by (simp add: hd_dropWhile)
  moreover have "hd t = hd (strip s)" using v False by (metis hd_append2)
  ultimately show ?thesis using False by (simp add: dropWhile_hd_id)
qed

lemma strip_idem: "strip (strip s) = strip s"
proof -
  have "strip (strip s) = rev (dropWhile is_space (rev (strip s)))"
    by (simp add: strip_def[of "strip s"] dropWhile_strip)
  also have "\<dots> = strip s" by (simp add: strip_def)
  finally show ?thesis .
qed

lemma set_strip: "set (strip s) \<subseteq> set s"
proof -
  have "set (strip s) = set (dropWhile is_space (rev (dropWhile is_space s)))"
    by (simp add: strip_def)
  also have "\<dots> \<subseteq> set (rev (dropWhile is_space s))"
    by (auto dest: set_dropWhileD)
  also have "\<dots> \<subseteq> set s"
    by (auto dest: set_dropWhileD)
  finally show ?thesis .
qed

lemma lower_strip_lower: "lower (strip (lower s)) = strip (lower s)"
proof -
  have "\<forall>c \<in> set (strip (lower s)). lower_char c = c"
    using set_strip[of "lower s"] by (auto simp: lower_def lower_char_idem)
  then show ?thesis by (simp add: lower_def map_idI)
qed

lemma strip_lower_fix: "strip (lower (strip (lower s))) = strip (lower s)"
  by (simp add: lower_strip_lower strip_idem)

subsection \<open>The three branches\<close>

text \<open>
  C1. A label that is neither missing nor the empty string is turned into the string
  \<open>s\<close>, its text lower-cased and trimmed. The result is \<^verbatim>\<open>'safe'\<close> when
  \<open>s\<close> contains "safe" and not "unsafe"; otherwise \<^verbatim>\<open>'unsafe'\<close> when \<open>s\<close>
  contains "unsafe" or is one of the five literal spellings; otherwise \<open>s\<close> itself,
  unchanged.
\<close>

theorem normalize_label_cases:
  assumes "\<not> pd_isna x" and "x \<noteq> PStr ''''"
  shows "normalize_label x =
           (let s = strip (lower (py_str x))
            in if contains s ''safe'' \<and> \<not> contains s ''unsafe'' then PStr ''safe''
               else if contains s ''unsafe''
                       \<or> s \<in> {''0'', ''1 (unsafe)'', ''0 (unsafe)'', ''unsafe (0)'', ''unsafe (1)''}
                    then PStr ''unsafe''
               else PStr s)"
  using assms by (simp add: normalize_label_def unsafe_literals_def Let_def)

lemma demo_texts:
  "strip (lower '' Safe '') = ''safe''"
  "strip (lower ''UNSAFE'') = ''unsafe''"
  "strip (lower (str_int 0)) = ''0''"
  "strip (lower '' Benign'') = ''benign''"
  by code_simp+

theorem normalize_label_cases_witness:
  "normalize_label (PStr '' Safe '') = PStr ''safe''
   \<and> normalize_label (PStr ''UNSAFE'') = PStr ''unsafe''
   \<and> normalize_label (PInt 0) = PStr ''unsafe''
   \<and> normalize_label (PStr '' Benign'') = PStr ''benign''"
  using normalize_label_cases[of "PStr '' Safe ''"] normalize_label_cases[of "PStr ''UNSAFE''"]
    normalize_label_cases[of "PInt 0"] normalize_label_cases[of "PStr '' Benign''"]
  by (simp add: demo_texts)

text \<open>
  C5. A missing input, that is \<^verbatim>\<open>None\<close>, NaN or the empty string, is returned as it
  is, and so is again a missing label.
\<close>

theorem normalize_label_missing:
  assumes "pd_isna x \<or> x = PStr ''''"
  shows "normalize_label x = x \<and> missing_label (normalize_label x)"
  using assms by (auto simp: normalize_label_def missing_label_def)

theorem normalize_label_missing_witness:
  "normalize_label (PStr '''') = PStr '''' \<and> missing_label (normalize_label (PStr ''''))
   \<and> normalize_label PNone = PNone \<and> missing_label (normalize_label PNone)
   \<and> normalize_label PNaN = PNaN \<and> missing_label (normalize_label PNaN)"
  using normalize_label_missing[of "PStr ''''"] normalize_label_missing[of PNone]
    normalize_label_missing[of PNaN]
  by (simp add: missing_label_def)

text \<open>
  C9. \<^verbatim>\<open>normalize_label\<close> never raises and always returns a label. None of the
  operations that can raise does so, on any cell: \<^verbatim>\<open>str(label)\<close> makes a string
  of the cell before \<^verbatim>\<open>.lower()\<close>, \<^verbatim>\<open>.strip()\<close> and
  \<^verbatim>\<open>in\<close> are reached. What is returned is the value of the function without
  exceptions used above, and it is a missing marker or a string. The code reads nothing but
  its argument, so the result is a function of the cell.
\<close>

theorem normalize_label_never_raises:
  "normalize_label_checked x = Inr (normalize_label x)
   \<and> (pd_isna (normalize_label x) \<or> (\<exists>s. normalize_label x = PStr s))"
proof -
  have "normalize_label_checked x = Inr (normalize_label x)"
    by (auto simp: normalize_label_checked_def normalize_label_def safe_test_def
        unsafe_test_def Let_def)
  moreover have "pd_isna (normalize_label x) \<or> (\<exists>s. normalize_label x = PStr s)"
    by (cases x) (auto simp: normalize_label_def Let_def)
  ultimately show ?thesis by blast
qed

theorem normalize_label_never_raises_witness:
  "normalize_label_checked (PInt 0) = Inr (PStr ''unsafe'')
   \<and> normalize_label_checked (PBool True) = Inr (PStr ''true'')
   \<and> normalize_label_checked PNone = Inr PNone"
proof -
  have "normalize_label (PInt 0) = PStr ''unsafe''" by code_simp
  moreover have "normalize_label (PBool True) = PStr ''true''" by code_simp
  moreover have "normalize_label PNone = PNone" by code_simp
  ultimately show ?thesis
    using normalize_label_never_raises[of "PInt 0"] normalize_label_never_raises[of "PBool True"]
      normalize_label_never_raises[of PNone]
    by simp
qed

text \<open>
  The conversion is what keeps the exceptions away: the same methods called on the cell
  itself raise on a cell that is not a string.
\<close>

lemma methods_raise_without_str:
  "method_lower (PInt 0) = Inl AttributeError
   \<and> method_strip (PBool True) = Inl AttributeError
   \<and> safe_test (PFloat ''1.0'') = Inl TypeError"
  by (simp add: safe_test_def)

text \<open>
  C10. Normalizing twice is normalizing once, on every cell: missing markers, the literal
  spellings of unsafe, and arbitrary other text. The equality is that of labels: a missing
  marker comes back as the same missing marker.
\<close>

theorem normalize_label_idempotent:
  "normalize_label (normalize_label x) = normalize_label x"
proof (cases "pd_isna x \<or> x = PStr ''''")
  case True
  then show ?thesis by (simp add: normalize_label_def)
next
  case False
  define u where "u = strip (lower (py_str x))"
  have canon_safe: "normalize_label (PStr ''safe'') = PStr ''safe''" by code_simp
  have canon_unsafe: "normalize_label (PStr ''unsafe'') = PStr ''unsafe''" by code_simp
  have fixed: "strip (lower u) = u" by (simp add: u_def strip_lower_fix)
  have passed: "normalize_label (PStr u) = PStr u"
    if "\<not> (contains u ''safe'' \<and> \<not> contains u ''unsafe'')"
      and "\<not> (contains u ''unsafe'' \<or> u \<in> set unsafe_literals)"
    using that by (simp add: normalize_label_def fixed Let_def)
  show ?thesis
    using False canon_safe canon_unsafe passed
    by (auto simp: normalize_label_def[of x] Let_def u_def[symmetric])
qed

theorem normalize_label_idempotent_witness:
  "normalize_label (normalize_label (PStr ''0'')) = normalize_label (PStr ''0'')
   \<and> normalize_label (normalize_label (PStr '' Benign'')) = normalize_label (PStr '' Benign'')
   \<and> normalize_label (normalize_label PNaN) = normalize_label PNaN"
  using normalize_label_idempotent[of "PStr ''0''"] normalize_label_idempotent[of "PStr '' Benign''"]
    normalize_label_idempotent[of PNaN]
  by simp

section \<open>Properties of the evaluator\<close>

subsection \<open>What a successful evaluation went through\<close>

lemma evaluate_model_Results:
  "evaluate_model ops src cat p t = Inr (Results r) \<Longrightarrow>
   \<exists>cols n df. load_and_filter src cat p t = Inr (Inr (cols, n, df)) \<and> score ops cat cols n df = Inr r"
  by (auto simp: evaluate_model_def evaluate_body_def split: sum.splits prod.splits)

lemma guarded_ratio_value:
  "guarded_ratio ops num den = Inr (if den > 0 then Num (round3 ops (truediv ops num den)) else NA)"
  by (simp add: guarded_ratio_def py_truediv_def)

lemma score_Inr:
  assumes "score ops cat cols n df = Inr r"
  defines "kept \<equiv> drop_incomplete df"
  defines "tp \<equiv> tally kept ''unsafe'' ''unsafe''"
  defines "tn \<equiv> tally kept ''safe'' ''safe''"
  defines "fp \<equiv> tally kept ''unsafe'' ''safe''"
  defines "fn \<equiv> tally kept ''safe'' ''unsafe''"
  shows "true_positives r = tp" "true_negatives r = tn" "false_positives r = fp" "false_negatives r = fn"
    "total_samples r = tp + tn + fp + fn"
    "rows_removed r = len df - len kept"
    "accuracy r = (if tp + tn + fp + fn > 0 then Num (round3 ops (truediv ops (tp + tn) (tp + tn + fp + fn))) else NA)"
    "precision_ppv r = (if tp + fp > 0 then Num (round3 ops (truediv ops tp (tp + fp))) else NA)"
    "npv r = (if tn + fn > 0 then Num (round3 ops (truediv ops tn (tn + fn))) else NA)"
    "recall r = (if tp + fn > 0 then Num (round3 ops (truediv ops tp (tp + fn))) else NA)"
    "f1_of ops (precision_ppv r) (recall r) = Inr (f1_score r)"
  using assms(1) unfolding score_def Let_def guarded_ratio_value kept_def tp_def tn_def fp_def fn_def
  by (auto split: sum.splits)

lemma tally_partition:
  "count (\<lambda>r. r a = PStr ''unsafe'' \<and> r b = PStr ''unsafe'') xs
   + count (\<lambda>r. r a = PStr ''safe'' \<and> r b = PStr ''safe'') xs
   + count (\<lambda>r. r a = PStr ''unsafe'' \<and> r b = PStr ''safe'') xs
   + count (\<lambda>r. r a = PStr ''safe'' \<and> r b = PStr ''unsafe'') xs
   = int (length xs) - count (\<lambda>r. \<not> (canonical_label (r a) \<and> canonical_label (r b))) xs"
  by (induction xs) (auto simp: count_def canonical_label_def)

lemma total_excludes_other:
  "tally df ''unsafe'' ''unsafe'' + tally df ''safe'' ''safe'' + tally df ''unsafe'' ''safe''
     + tally df ''safe'' ''unsafe''
   = len df - count other_row (rows df)"
  unfolding tally_def len_def other_row_def by (rule tally_partition)

lemma rows_drop_incomplete: "rows (drop_incomplete df) = filter complete_row (rows df)"
  by (auto simp: drop_incomplete_def dropna_def Let_def complete_row_def missing_label_def
      intro: filter_cong)

subsection \<open>Running the model on the example table\<close>

lemma lower_names:
  "lower ''total'' = ''total''"
  "lower ''zzz'' = ''zzz''"
  "lower ''A'' = ''a''"
  "lower ''a'' = ''a''"
  "lower ''B'' = ''b''"
  by code_simp+

lemma demo_category_columns: "category_columns demo_frame = [''Category'']"
  by code_simp

lemma demo_labels:
  "normalize_label (PStr ''Unsafe'') = PStr ''unsafe''"
  "normalize_label (PStr ''unsafe'') = PStr ''unsafe''"
  "normalize_label (PStr ''safe'') = PStr ''safe''"
  "normalize_label (PStr '' SAFE '') = PStr ''safe''"
  "normalize_label (PStr ''unsafe (1)'') = PStr ''unsafe''"
  "normalize_label (PStr ''Safe'') = PStr ''safe''"
  "normalize_label (PStr ''0'') = PStr ''unsafe''"
  "normalize_label (PStr ''benign'') = PStr ''benign''"
  "normalize_label PNaN = PNaN"
  by code_simp+

lemmas frame_defs = load_and_filter_def count_empty_cells_def getitems_def getitem_def
  filter_category_def matching_rows_def df_empty_def normalize_columns_def assign_apply_def
  demo_frame_def cell_row_def count_def lower_names demo_labels

lemmas score_defs = score_def drop_incomplete_def dropna_def tally_def count_def len_def
  guarded_ratio_def py_truediv_def py_fdiv_def exact_ops_def round_half_even_def Let_def

lemma demo_total_run:
  "evaluate_model exact_ops (Inr demo_frame) ''total'' ''pred'' ''truth'' = Inr (Results demo_total)"
  by (simp add: evaluate_model_def evaluate_body_def frame_defs score_defs demo_total_def)

lemma demo_total_frame:
  "case load_and_filter (Inr demo_frame) ''total'' ''pred'' ''truth'' of
     Inr (Inr (cols, n, df)) \<Rightarrow>
       len df = 6 \<and> len (drop_incomplete df) = 5 \<and> count other_row (rows (drop_incomplete df)) = 1
   | _ \<Rightarrow> False"
  by (simp add: frame_defs drop_incomplete_def dropna_def len_def other_row_def
      canonical_label_def Let_def)

subsection \<open>The confusion matrix and the rows it leaves out\<close>

text \<open>
  C2. When the evaluation succeeds, the reported total is the sum of the four counts of the
  confusion matrix, and equals the number of surviving rows minus the number of surviving
  Other rows. The surviving rows are all the rows whose two normalized labels are not
  missing, Other rows included: those are not dropped, count in the filtered count and
  not in \<open>rows_removed\<close>, and are in none of the four counts.
\<close>

theorem evaluate_total_excludes_other:
  assumes "evaluate_model ops read_csv category_name prediction_column truth_column = Inr (Results r)"
  shows "\<exists>cols n df.
           load_and_filter read_csv category_name prediction_column truth_column = Inr (Inr (cols, n, df))
         \<and> rows (drop_incomplete df) = filter complete_row (rows df)
         \<and> rows_removed r = len df - len (drop_incomplete df)
         \<and> total_samples r
             = true_positives r + true_negatives r + false_positives r + false_negatives r
         \<and> total_samples r
             = len (drop_incomplete df) - count other_row (rows (drop_incomplete df))"
proof -
  obtain cols n df
    where lf: "load_and_filter read_csv category_name prediction_column truth_column
                 = Inr (Inr (cols, n, df))"
      and sc: "score ops category_name cols n df = Inr r"
    using evaluate_model_Results[OF assms] by blast
  have "total_samples r
          = true_positives r + true_negatives r + false_positives r + false_negatives r"
    using score_Inr(1-5)[OF sc] by simp
  moreover have "total_samples r
          = len (drop_incomplete df) - count other_row (rows (drop_incomplete df))"
    using score_Inr(5)[OF sc] total_excludes_other[of "drop_incomplete df"] by simp
  ultimately show ?thesis
    using lf score_Inr(6)[OF sc] rows_drop_incomplete by blast
qed

theorem evaluate_total_excludes_other_witness:
  "evaluate_model exact_ops (Inr demo_frame) ''total'' ''pred'' ''truth'' = Inr (Results demo_total)
   \<and> total_samples demo_total = 4 \<and> rows_removed demo_total = 1
   \<and> (\<exists>cols n df.
         load_and_filter (Inr demo_frame) ''total'' ''pred'' ''truth'' = Inr (Inr (cols, n, df))
       \<and> len df = 6 \<and> len (drop_incomplete df) = 5
       \<and> count other_row (rows (drop_incomplete df)) = 1
       \<and> total_samples demo_total
           = len (drop_incomplete df) - count other_row (rows (drop_incomplete df)))"
proof -
  obtain cols n df
    where lf: "load_and_filter (Inr demo_frame) ''total'' ''pred'' ''truth'' = Inr (Inr (cols, n, df))"
      and tot: "total_samples demo_total
                  = len (drop_incomplete df) - count other_row (rows (drop_incomplete df))"
    using evaluate_total_excludes_other[OF demo_total_run] by blast
  have "len df = 6 \<and> len (drop_incomplete df) = 5
        \<and> count other_row (rows (drop_incomplete df)) = 1"
    using demo_total_frame lf by simp
  moreover have "total_samples demo_total = 4 \<and> rows_removed demo_total = 1"
    by (simp add: demo_total_def)
  ultimately show ?thesis using demo_total_run lf tot by blast
qed

subsection \<open>The metrics\<close>

text \<open>
  C3. When the evaluation succeeds, each of the four ratios has its own guard: accuracy is
  (TP+TN)/total rounded to three decimals when the total is positive, precision is
  TP/(TP+FP) when TP+FP is positive, NPV is TN/(TN+FN) when TN+FN is positive, recall is
  TP/(TP+FN) when TP+FN is positive, and each is N/A otherwise. A guarded ratio never
  raises, whatever the counts: no division by zero is performed.
\<close>

theorem evaluate_metrics_guarded:
  assumes "evaluate_model ops read_csv category_name prediction_column truth_column = Inr (Results r)"
  shows "total_samples r
           = true_positives r + true_negatives r + false_positives r + false_negatives r
       \<and> accuracy r =
           (if total_samples r > 0
            then Num (round3 ops (truediv ops (true_positives r + true_negatives r) (total_samples r)))
            else NA)
       \<and> precision_ppv r =
           (if true_positives r + false_positives r > 0
            then Num (round3 ops (truediv ops (true_positives r) (true_positives r + false_positives r)))
            else NA)
       \<and> npv r =
           (if true_negatives r + false_negatives r > 0
            then Num (round3 ops (truediv ops (true_negatives r) (true_negatives r + false_negatives r)))
            else NA)
       \<and> recall r =
           (if true_positives r + false_negatives r > 0
            then Num (round3 ops (truediv ops (true_positives r) (true_positives r + false_negatives r)))
            else NA)
       \<and> (\<forall>num den e. guarded_ratio ops num den \<noteq> Inl e)"
proof -
  obtain cols n df where sc: "score ops category_name cols n df = Inr r"
    using evaluate_model_Results[OF assms] by blast
  have never: "\<forall>num den e. guarded_ratio ops num den \<noteq> Inl e"
    by (simp add: guarded_ratio_value)
  show ?thesis
    using score_Inr(1-5,7-10)[OF sc] never by simp
qed

theorem evaluate_metrics_guarded_witness:
  "evaluate_model exact_ops (Inr demo_frame) ''total'' ''pred'' ''truth'' = Inr (Results demo_total)
   \<and> accuracy demo_total = Num (round3 exact_ops (truediv exact_ops 2 4))
   \<and> precision_ppv demo_total = Num (round3 exact_ops (truediv exact_ops 1 2))
   \<and> npv demo_total = Num (round3 exact_ops (truediv exact_ops 1 2))
   \<and> recall demo_total = Num (round3 exact_ops (truediv exact_ops 1 2))"
  using evaluate_metrics_guarded[OF demo_total_run] demo_total_run
  by (simp add: demo_total_def)

text \<open>
  C4. When the evaluation succeeds, F1 is N/A exactly when precision is N/A, recall is N/A,
  precision is zero or recall is zero; in every other case it is
  2 * (precision * recall) / (precision + recall), on the reported precision and recall,
  rounded to three decimals.
\<close>

theorem evaluate_f1:
  assumes "evaluate_model ops read_csv category_name prediction_column truth_column = Inr (Results r)"
  shows "((f1_score r = NA) =
            (precision_ppv r = NA \<or> recall r = NA
             \<or> (\<exists>p. precision_ppv r = Num p \<and> is_zero ops p)
             \<or> (\<exists>q. recall r = Num q \<and> is_zero ops q)))
       \<and> (\<forall>p q. precision_ppv r = Num p \<and> recall r = Num q \<and> \<not> is_zero ops p \<and> \<not> is_zero ops q
            \<longrightarrow> f1_score r
                  = Num (round3 ops (fdiv ops (fmul ops (from_int ops 2) (fmul ops p q)) (fadd ops p q))))"
proof -
  obtain cols n df where sc: "score ops category_name cols n df = Inr r"
    using evaluate_model_Results[OF assms] by blast
  have f1: "f1_of ops (precision_ppv r) (recall r) = Inr (f1_score r)"
    by (rule score_Inr(11)[OF sc])
  have na: "(f1_score r = NA) =
           (precision_ppv r = NA \<or> recall r = NA
            \<or> (\<exists>p. precision_ppv r = Num p \<and> is_zero ops p)
            \<or> (\<exists>q. recall r = Num q \<and> is_zero ops q))"
    using f1 by (cases "precision_ppv r"; cases "recall r")
      (auto simp: py_fdiv_def split: if_splits)
  have num: "\<forall>p q. precision_ppv r = Num p \<and> recall r = Num q \<and> \<not> is_zero ops p \<and> \<not> is_zero ops q
           \<longrightarrow> f1_score r
                 = Num (round3 ops (fdiv ops (fmul ops (from_int ops 2) (fmul ops p q)) (fadd ops p q)))"
    using f1 by (auto simp: py_fdiv_def split: if_splits)
  show ?thesis using na num by blast
qed

theorem evaluate_f1_witness:
  "evaluate_model exact_ops (Inr demo_frame) ''total'' ''pred'' ''truth'' = Inr (Results demo_total)
   \<and> precision_ppv demo_total = Num (1 / 2) \<and> recall demo_total = Num (1 / 2)
   \<and> f1_score demo_total
       = Num (round3 exact_ops (fdiv exact_ops (fmul exact_ops (from_int exact_ops 2)
               (fmul exact_ops (1 / 2) (1 / 2))) (fadd exact_ops (1 / 2) (1 / 2))))
   \<and> f1_score demo_total \<noteq> NA"
proof -
  have pr: "precision_ppv demo_total = Num (1 / 2) \<and> recall demo_total = Num (1 / 2)"
    by (simp add: demo_total_def)
  have nz: "\<not> is_zero exact_ops (1 / 2)"
    by (simp add: exact_ops_def)
  have "\<forall>p q. precision_ppv demo_total = Num p \<and> recall demo_total = Num q
            \<and> \<not> is_zero exact_ops p \<and> \<not> is_zero exact_ops q
          \<longrightarrow> f1_score demo_total
                = Num (round3 exact_ops (fdiv exact_ops (fmul exact_ops (from_int exact_ops 2)
                        (fmul exact_ops p q)) (fadd exact_ops p q)))"
    using evaluate_f1[OF demo_total_run] by blast
  then have "f1_score demo_total
       = Num (round3 exact_ops (fdiv exact_ops (fmul exact_ops (from_int exact_ops 2)
               (fmul exact_ops (1 / 2) (1 / 2))) (fadd exact_ops (1 / 2) (1 / 2))))"
    using pr nz by blast
  moreover have "f1_score demo_total \<noteq> NA"
    by (simp add: demo_total_def)
  ultimately show ?thesis using demo_total_run pr by blast
qed

subsection \<open>Errors\<close>

lemma count_empty_cells_missing:
  assumes "prediction_column \<notin> set (columns df) \<or> truth_column \<notin> set (columns df)"
  shows "count_empty_cells df prediction_column truth_column
           = Inl (KeyError (filter (\<lambda>n. n \<notin> set (columns df)) [prediction_column, truth_column]))"
  using assms by (auto simp: count_empty_cells_def getitems_def)

lemma count_empty_cells_present:
  assumes "prediction_column \<in> set (columns df)" and "truth_column \<in> set (columns df)"
  shows "\<exists>n. count_empty_cells df prediction_column truth_column = Inr n"
  using assms by (simp add: count_empty_cells_def getitems_def getitem_def)

text \<open>
  C6. When the prediction column or the truth column is not a column of the table, the
  evaluation returns the error made of the \<^verbatim>\<open>KeyError\<close> of line 39, which names the
  absent columns. The rows play no part: the result is the same whatever rows the table
  has, and it is an error, never a results dictionary.
\<close>

theorem evaluate_column_not_found:
  assumes "prediction_column \<notin> set (columns df) \<or> truth_column \<notin> set (columns df)"
  shows "evaluate_model ops (Inr df) category_name prediction_column truth_column
           = Inr (Error (Caught (KeyError
               (filter (\<lambda>n. n \<notin> set (columns df)) [prediction_column, truth_column]))))
       \<and> evaluate_model ops (Inr (df\<lparr>rows := other_rows\<rparr>)) category_name prediction_column truth_column
           = evaluate_model ops (Inr df) category_name prediction_column truth_column"
proof -
  have "evaluate_model ops (Inr d) category_name prediction_column truth_column
          = Inr (Error (Caught (KeyError
              (filter (\<lambda>n. n \<notin> set (columns df)) [prediction_column, truth_column]))))"
    if "columns d = columns df" for d
    using count_empty_cells_missing[of prediction_column d truth_column] assms that
    by (simp add: evaluate_model_def evaluate_body_def load_and_filter_def)
  from this[of df] this[of "df\<lparr>rows := other_rows\<rparr>"] show ?thesis by simp
qed

theorem evaluate_column_not_found_witness:
  "evaluate_model exact_ops (Inr demo_frame) ''total'' ''pred'' ''label''
     = Inr (Error (Caught (KeyError [''label''])))
   \<and> evaluate_model exact_ops (Inr (demo_frame\<lparr>rows := []\<rparr>)) ''total'' ''pred'' ''label''
     = evaluate_model exact_ops (Inr demo_frame) ''total'' ''pred'' ''label''"
  using evaluate_column_not_found[of "''pred''" demo_frame "''label''" exact_ops "''total''" "[]"]
  by (simp add: demo_frame_def)

text \<open>
  On a category column of text the code does what line 51 is there for: when the table has
  the prediction and the truth column, the filter names a category, the
  \<^verbatim>\<open>.str\<close> accessor accepts the first column whose name contains "category",
  and no row's category value lower-cased equals the name lower-cased, the evaluation
  returns the error of line 51 for that name.
\<close>

lemma category_not_found_on_text:
  assumes "prediction_column \<in> set (columns df)" and "truth_column \<in> set (columns df)"
    and "lower category_name \<noteq> ''total''"
    and "category_columns df = category_col # others"
    and "str_accessor_ok df category_col"
    and "matching_rows df category_col category_name = []"
  shows "evaluate_model ops (Inr df) category_name prediction_column truth_column
           = Inr (Error (NoDataForCategory category_name))"
proof -
  obtain n where "count_empty_cells df prediction_column truth_column = Inr n"
    using count_empty_cells_present[OF assms(1,2)] by blast
  moreover have "filter_category df category_name = Inr (Inl (NoDataForCategory category_name))"
    using assms(3-6) by (simp add: filter_category_def df_empty_def)
  ultimately show ?thesis
    by (simp add: evaluate_model_def evaluate_body_def load_and_filter_def)
qed

lemma demo_no_zzz: "matching_rows demo_frame ''Category'' ''zzz'' = []"
  by (simp add: matching_rows_def demo_frame_def cell_row_def lower_names)

lemma demo_category_not_found:
  "evaluate_model exact_ops (Inr demo_frame) ''zzz'' ''pred'' ''truth''
     = Inr (Error (NoDataForCategory ''zzz''))"
proof -
  have "''pred'' \<in> set (columns demo_frame)" and "''truth'' \<in> set (columns demo_frame)"
    by (simp_all add: demo_frame_def)
  moreover have "lower ''zzz'' \<noteq> ''total''"
    by (simp add: lower_names)
  moreover have "category_columns demo_frame = ''Category'' # []"
    by (rule demo_category_columns)
  moreover have "str_accessor_ok demo_frame ''Category''"
    by (simp add: str_accessor_ok_def demo_frame_def cell_row_def)
  ultimately show ?thesis
    using demo_no_zzz by (rule category_not_found_on_text)
qed

lemma refused_accessor_raises:
  assumes "prediction_column \<in> set (columns df)" and "truth_column \<in> set (columns df)"
    and "lower category_name \<noteq> ''total''"
    and "category_columns df = category_col # others"
    and "\<not> str_accessor_ok df category_col"
  shows "evaluate_model ops (Inr df) category_name prediction_column truth_column
           = Inr (Error (Caught AttributeError))"
proof -
  obtain n where "count_empty_cells df prediction_column truth_column = Inr n"
    using count_empty_cells_present[OF assms(1,2)] by blast
  moreover have "filter_category df category_name = Inl AttributeError"
    using assms(3-5) by (simp add: filter_category_def)
  ultimately show ?thesis
    by (simp add: evaluate_model_def evaluate_body_def load_and_filter_def)
qed

lemma lower_digits: "lower ''4'' = ''4''" "lower ''1'' = ''1''" "lower ''false'' = ''false''"
  by code_simp+

lemma numeric_category_columns: "category_columns numeric_category_frame = [''category'']"
  by code_simp

lemma boolean_category_columns: "category_columns boolean_category_frame = [''category'']"
  by code_simp

text \<open>
  C7. The table has the columns category, pred and truth, and its category column holds the
  integers 1 and 2. No row has the category 4, yet the evaluation for the category 4 does
  not return the error of line 51: line 48 raises, and the result is the error the handler
  makes of the \<^verbatim>\<open>AttributeError\<close>. The category 1, which the table has, gets the
  same error.
\<close>

theorem evaluate_numeric_category:
  "category_columns numeric_category_frame = [''category'']
   \<and> matching_rows numeric_category_frame ''category'' ''4'' = []
   \<and> evaluate_model exact_ops (Inr numeric_category_frame) ''4'' ''pred'' ''truth''
       = Inr (Error (Caught AttributeError))
   \<and> evaluate_model exact_ops (Inr numeric_category_frame) ''4'' ''pred'' ''truth''
       \<noteq> Inr (Error (NoDataForCategory ''4''))
   \<and> evaluate_model exact_ops (Inr numeric_category_frame) ''1'' ''pred'' ''truth''
       = Inr (Error (Caught AttributeError))"
proof -
  have cols: "''pred'' \<in> set (columns numeric_category_frame)"
      "''truth'' \<in> set (columns numeric_category_frame)"
    by (simp_all add: numeric_category_frame_def)
  have refused: "\<not> str_accessor_ok numeric_category_frame ''category''"
    by (simp add: str_accessor_ok_def numeric_category_frame_def)
  have run: "evaluate_model exact_ops (Inr numeric_category_frame) name ''pred'' ''truth''
          = Inr (Error (Caught AttributeError))"
    if "lower name \<noteq> ''total''" for name
    using cols that numeric_category_columns refused by (rule refused_accessor_raises)
  have "matching_rows numeric_category_frame ''category'' ''4'' = []"
    by (simp add: matching_rows_def numeric_category_frame_def cell_row_def)
  then show ?thesis
    using run[of "''4''"] run[of "''1''"] numeric_category_columns
    by (simp add: lower_digits)
qed

text \<open>
  The same happens on a category column of booleans with a missing cell, which is of object
  dtype.
\<close>

lemma boolean_category_raises:
  "evaluate_model exact_ops (Inr boolean_category_frame) ''false'' ''pred'' ''truth''
     = Inr (Error (Caught AttributeError))"
proof -
  have "''pred'' \<in> set (columns boolean_category_frame)"
      and "''truth'' \<in> set (columns boolean_category_frame)"
    by (simp_all add: boolean_category_frame_def)
  moreover have "lower ''false'' \<noteq> ''total''"
    by (simp add: lower_digits)
  moreover note boolean_category_columns
  moreover have "\<not> str_accessor_ok boolean_category_frame ''category''"
    by (simp add: str_accessor_ok_def boolean_category_frame_def cell_row_def)
  ultimately show ?thesis
    by (rule refused_accessor_raises)
qed

text \<open>
  C8. The evaluation never raises: whatever the source, the table and the arguments, it
  returns a dictionary. Any exception of the body, the one of a source that could not be
  read included, comes back as the error made of it; what the body returns comes back
  unchanged; and an error carries no results.
\<close>

theorem evaluate_model_never_raises:
  "(\<exists>out. evaluate_model ops read_csv category_name prediction_column truth_column = Inr out)
   \<and> (\<forall>e. evaluate_body ops read_csv category_name prediction_column truth_column = Inl e
        \<longrightarrow> evaluate_model ops read_csv category_name prediction_column truth_column
              = Inr (Error (Caught e)))
   \<and> (\<forall>out. evaluate_body ops read_csv category_name prediction_column truth_column = Inr out
        \<longrightarrow> evaluate_model ops read_csv category_name prediction_column truth_column = Inr out)
   \<and> (\<forall>e. evaluate_model ops (Inl e) category_name prediction_column truth_column
              = Inr (Error (Caught e)))"
  by (auto simp: evaluate_model_def evaluate_body_def load_and_filter_def split: sum.splits)

theorem evaluate_model_never_raises_witness:
  "evaluate_body exact_ops (Inl ReadError) ''total'' ''pred'' ''truth'' = Inl ReadError
   \<and> evaluate_model exact_ops (Inl ReadError) ''total'' ''pred'' ''truth''
       = Inr (Error (Caught ReadError))"
proof -
  have body: "evaluate_body exact_ops (Inl ReadError) ''total'' ''pred'' ''truth'' = Inl ReadError"
    by (simp add: evaluate_body_def load_and_filter_def)
  then show ?thesis
    using evaluate_model_never_raises[of exact_ops "Inl ReadError" "''total''" "''pred''" "''truth''"]
    by blast
qed


end
